theory Spec2Isabelle
  imports Main
begin

section \<open>Product popup: variant lookup and the add-to-cart workflow\<close>

text \<open>
  A shallow embedding of \<^verbatim>\<open>src/assets/product-popup.js\<close>: the variant lookup
  (\<^verbatim>\<open>findMatchingVariant\<close>), the click handler \<^verbatim>\<open>handleAddToCart\<close> with its promise
  chain, the bundle step \<^verbatim>\<open>autoAddSoftWinterJacket\<close>, and the handlers that write the
  module's global variables (\<^verbatim>\<open>selectColor\<close>, the size \<^verbatim>\<open>change\<close> listener,
  \<^verbatim>\<open>closePopup\<close>).
\<close>

subsection \<open>Strings and JavaScript values\<close>

text \<open>
  Strings are \<^typ>\<open>string\<close>. \<^verbatim>\<open>String.prototype.toLowerCase\<close> and \<^verbatim>\<open>toUpperCase\<close> are
  modelled on the ASCII letters (codes 65..90 and 97..122); every other character is
  left as it is, and the length of the string never changes.
\<close>

definition toLowerChar :: "char \<Rightarrow> char" where
  "toLowerChar ch =
     (let n = (of_char ch :: nat) in if 65 \<le> n \<and> n \<le> 90 then char_of (n + 32) else ch)"

definition toUpperChar :: "char \<Rightarrow> char" where
  "toUpperChar ch =
     (let n = (of_char ch :: nat) in if 97 \<le> n \<and> n \<le> 122 then char_of (n - 32) else ch)"

definition toLowerCase :: "string \<Rightarrow> string" where
  "toLowerCase s = map toLowerChar s"

definition toUpperCase :: "string \<Rightarrow> string" where
  "toUpperCase s = map toUpperChar s"

text \<open>
  A variable that holds a string or \<^verbatim>\<open>null\<close>/\<^verbatim>\<open>undefined\<close> is a \<^typ>\<open>string option\<close>;
  \<^const>\<open>None\<close> is \<^verbatim>\<open>null\<close>. Such a value is truthy when it is a non-empty string.
\<close>

definition truthy :: "string option \<Rightarrow> bool" where
  "truthy v = (case v of None \<Rightarrow> False | Some s \<Rightarrow> s \<noteq> [])"

text \<open>Reading a property of \<^verbatim>\<open>null\<close> throws a \<^verbatim>\<open>TypeError\<close>.\<close>

datatype fault = TypeError

subsection \<open>Products and variants\<close>

text \<open>
  A variant of Shopify's product JSON: its identifier and the two option values the
  script reads (\<^verbatim>\<open>option1\<close> the colour, \<^verbatim>\<open>option2\<close> the size), each a string or
  \<^verbatim>\<open>null\<close>. Of a product the workflow reads only \<^verbatim>\<open>variants\<close>.
\<close>

record variant =
  variant_id :: nat
  option1 :: "string option"
  option2 :: "string option"

record product =
  variants :: "variant list"

subsection \<open>findMatchingVariant\<close>

text \<open>
  \<^verbatim>\<open>Array.prototype.find\<close>: the first element on which the callback returns true, or
  \<^verbatim>\<open>undefined\<close>; an exception of the callback ends the search.
\<close>

fun array_find :: "('a \<Rightarrow> fault + bool) \<Rightarrow> 'a list \<Rightarrow> fault + 'a option" where
  "array_find f [] = Inr None"
| "array_find f (x # xs) =
     (case f x of
        Inl e \<Rightarrow> Inl e
      | Inr b \<Rightarrow> if b then Inr (Some x) else array_find f xs)"

text \<open>
  The callback of \<^verbatim>\<open>findMatchingVariant\<close> (lines 374-380):
  \<^verbatim>\<open>
  const variantColor = variant.option1 ? variant.option1.toLowerCase() : '';
  const variantSize = variant.option2 ? variant.option2.toUpperCase() : '';
  return variantColor === color.toLowerCase() && variantSize === size;
  \<close>
  \<^verbatim>\<open>color.toLowerCase()\<close> is evaluated for every variant visited and throws when
  \<^verbatim>\<open>color\<close> is \<^verbatim>\<open>null\<close>.
\<close>

definition variantMatches :: "string option \<Rightarrow> string option \<Rightarrow> variant \<Rightarrow> fault + bool" where
  "variantMatches color sz v =
     (let variantColor = (case option1 v of
                            None \<Rightarrow> []
                          | Some o1 \<Rightarrow> if o1 \<noteq> [] then toLowerCase o1 else []);
          variantSize = (case option2 v of
                           None \<Rightarrow> []
                         | Some o2 \<Rightarrow> if o2 \<noteq> [] then toUpperCase o2 else [])
      in case color of
           None \<Rightarrow> Inl TypeError
         | Some c \<Rightarrow> Inr (variantColor = toLowerCase c \<and> Some variantSize = sz))"

text \<open>\<^verbatim>\<open>product.variants\<close> throws when \<^verbatim>\<open>product\<close> is \<^verbatim>\<open>null\<close>.\<close>

definition findMatchingVariant ::
  "product option \<Rightarrow> string option \<Rightarrow> string option \<Rightarrow> fault + variant option" where
  "findMatchingVariant pr color sz =
     (case pr of
        None \<Rightarrow> Inl TypeError
      | Some p \<Rightarrow> array_find (variantMatches color sz) (variants p))"

text \<open>
  The words of the specification: two strings are equal case-insensitively when their
  lower-case forms are equal; a missing label is the empty string.
\<close>

definition eqIgnoreCase :: "string \<Rightarrow> string \<Rightarrow> bool" where
  "eqIgnoreCase a b = (toLowerCase a = toLowerCase b)"

definition label :: "string option \<Rightarrow> string" where
  "label v = (case v of None \<Rightarrow> [] | Some s \<Rightarrow> s)"

text \<open>
  The lookup as the specification words it: the first variant whose colour equals the
  selected colour case-insensitively and whose size equals the selected size exactly.
\<close>

definition lookup_exact_size :: "variant list \<Rightarrow> string \<Rightarrow> string \<Rightarrow> variant option" where
  "lookup_exact_size vs c s =
     List.find (\<lambda>v. eqIgnoreCase (label (option1 v)) c \<and> label (option2 v) = s) vs"

subsection \<open>The page state and what the script does to the outside\<close>

text \<open>
  The effects of the script, in the order they happen: a notification shown to the
  shopper (\<^verbatim>\<open>showNotification(message, type)\<close>), a network request started with
  \<^verbatim>\<open>fetch\<close>, console output, the timer that closes the popup, and an exception that
  leaves an event listener uncaught.
\<close>

datatype notification_type = Success | Error

datatype call =
    CartAdd nat nat      \<comment> \<open>\<^verbatim>\<open>POST /cart/add.js\<close> with \<^verbatim>\<open>id\<close> and \<^verbatim>\<open>quantity\<close>\<close>
  | ProductJs string     \<comment> \<open>\<^verbatim>\<open>GET /products/<handle>.js\<close>\<close>
  | CartJs               \<comment> \<open>\<^verbatim>\<open>GET /cart.js\<close>\<close>

datatype effect =
    Notification string notification_type
  | Request nat call
  | ConsoleLog string
  | ConsoleError string string
  | SetTimeout_closePopup
  | Uncaught fault

text \<open>
  How a request ends: the promise of \<^verbatim>\<open>fetch\<close> (or of \<^verbatim>\<open>response.json()\<close>) rejects
  with an error carrying a message, or the response arrives with \<^verbatim>\<open>response.ok\<close> false,
  or it arrives with a JSON body.
\<close>

datatype body = ProductBody product | OtherBody

datatype response = Rejected string | NotOk | Ok body

text \<open>
  The promise chains of \<^verbatim>\<open>handleAddToCart\<close> and \<^verbatim>\<open>autoAddSoftWinterJacket\<close> suspend at
  their network requests. A request in flight is recorded with the point of the chain
  that continues when it settles.
\<close>

datatype stage =
    PrimaryAdd      \<comment> \<open>\<^verbatim>\<open>addToCart(variant.id)\<close> of line 340\<close>
  | JacketLookup    \<comment> \<open>\<^verbatim>\<open>fetch('/products/dark-winter-jacket.js')\<close> of line 417\<close>
  | JacketAdd       \<comment> \<open>\<^verbatim>\<open>addToCart(variantId, 1)\<close> of line 428\<close>
  | CartCount       \<comment> \<open>\<^verbatim>\<open>fetch('/cart.js')\<close> of line 442\<close>

text \<open>
  The module's global variables \<^verbatim>\<open>currentProduct\<close>, \<^verbatim>\<open>selectedColor\<close> and
  \<^verbatim>\<open>selectedSize\<close>, the \<^verbatim>\<open>disabled\<close> property of the button \<^verbatim>\<open>#popupAddToCart\<close>, the
  requests in flight, the number of the next request, and the effects so far.
\<close>

record state =
  currentProduct :: "product option"
  selectedColor :: "string option"
  selectedSize :: "string option"
  addToCartDisabled :: bool
  pending :: "(nat \<times> stage) list"
  nextRequest :: nat
  trace :: "effect list"

definition emit :: "effect \<Rightarrow> state \<Rightarrow> state" where
  "emit e st = st\<lparr>trace := trace st @ [e]\<rparr>"

definition showNotification :: "string \<Rightarrow> notification_type \<Rightarrow> state \<Rightarrow> state" where
  "showNotification message kind st = emit (Notification message kind) st"

text \<open>\<^verbatim>\<open>fetch\<close>: the request goes out and the chain waits for it at stage \<open>k\<close>.\<close>

definition fetch :: "call \<Rightarrow> stage \<Rightarrow> state \<Rightarrow> state" where
  "fetch c k st =
     st\<lparr>pending := pending st @ [(nextRequest st, k)],
        nextRequest := Suc (nextRequest st),
        trace := trace st @ [Request (nextRequest st) c]\<rparr>"

subsection \<open>Selection handlers and closePopup\<close>

definition updateAddToCartButton :: "state \<Rightarrow> state" where
  "updateAddToCartButton st =
     (if truthy (selectedColor st) \<and> truthy (selectedSize st)
      then st\<lparr>addToCartDisabled := False\<rparr>
      else st\<lparr>addToCartDisabled := True\<rparr>)"

definition selectColor :: "string \<Rightarrow> state \<Rightarrow> state" where
  "selectColor color st = updateAddToCartButton (st\<lparr>selectedColor := Some color\<rparr>)"

text \<open>The \<^verbatim>\<open>change\<close> listener of the size dropdown (lines 132-135).\<close>

definition sizeChanged :: "string \<Rightarrow> state \<Rightarrow> state" where
  "sizeChanged v st = updateAddToCartButton (st\<lparr>selectedSize := Some v\<rparr>)"

definition closePopup :: "state \<Rightarrow> state" where
  "closePopup st = st\<lparr>currentProduct := None, selectedColor := None, selectedSize := None\<rparr>"

subsection \<open>addToCart and the two ends of the chain\<close>

text \<open>
  \<^verbatim>\<open>addToCart(variantId, quantity)\<close>: \<^verbatim>\<open>quantity = quantity || 1\<close>, then the request.
  Its own \<^verbatim>\<open>then\<close> throws \<^verbatim>\<open>Error('Failed to add to cart')\<close> when the response is not ok.
\<close>

definition addToCart :: "nat \<Rightarrow> nat option \<Rightarrow> stage \<Rightarrow> state \<Rightarrow> state" where
  "addToCart variantId quantity k st =
     fetch (CartAdd variantId (case quantity of
                                 None \<Rightarrow> 1
                               | Some q \<Rightarrow> if q = 0 then 1 else q)) k st"

definition addToCart_settled :: "response \<Rightarrow> string + body" where
  "addToCart_settled r =
     (case r of
        Rejected m \<Rightarrow> Inl m
      | NotOk \<Rightarrow> Inl ''Failed to add to cart''
      | Ok b \<Rightarrow> Inr b)"

definition updateCartCount :: "state \<Rightarrow> state" where
  "updateCartCount st = fetch CartJs CartCount st"

text \<open>
  The second \<^verbatim>\<open>then\<close> of \<^verbatim>\<open>handleAddToCart\<close> (lines 347-357) followed by its
  \<^verbatim>\<open>finally\<close> (lines 362-366).
\<close>

definition added :: "state \<Rightarrow> state" where
  "added st =
     (let st1 = showNotification ''Added to cart'' Success st;
          st2 = updateCartCount st1;
          st3 = emit SetTimeout_closePopup st2
      in st3\<lparr>addToCartDisabled := False\<rparr>)"

text \<open>The \<^verbatim>\<open>catch\<close> of \<^verbatim>\<open>handleAddToCart\<close> (lines 358-361) followed by its \<^verbatim>\<open>finally\<close>.\<close>

definition failed :: "string \<Rightarrow> state \<Rightarrow> state" where
  "failed message st =
     (let st1 = emit (ConsoleError ''Add to cart error:'' message) st;
          st2 = showNotification (''A problem happened. Error: '' @ message) Error st1
      in st2\<lparr>addToCartDisabled := False\<rparr>)"

text \<open>
  The message of the \<^verbatim>\<open>TypeError\<close> thrown on reading a property of \<^verbatim>\<open>null\<close> or
  \<^verbatim>\<open>undefined\<close>; its wording is the engine's.
\<close>

definition typeErrorMessage :: string where
  "typeErrorMessage = ''Cannot read properties of null''"

subsection \<open>handleAddToCart\<close>

text \<open>
  The synchronous part (lines 319-340): validation, lookup, the button is disabled, the
  primary request goes out. With \<^verbatim>\<open>currentProduct\<close> null the lookup throws and the
  listener ends there. The text of the button is not modelled.
\<close>

definition handleAddToCart :: "state \<Rightarrow> state" where
  "handleAddToCart st =
     (if \<not> truthy (selectedColor st) \<or> \<not> truthy (selectedSize st)
      then showNotification ''Please select both color and size'' Error st
      else case findMatchingVariant (currentProduct st) (selectedColor st) (selectedSize st) of
             Inl e \<Rightarrow> emit (Uncaught e) st
           | Inr None \<Rightarrow> showNotification ''This combination is not available'' Error st
           | Inr (Some v) \<Rightarrow>
               addToCart (variant_id v) None PrimaryAdd (st\<lparr>addToCartDisabled := True\<rparr>))"

text \<open>
  \<^verbatim>\<open>autoAddSoftWinterJacket\<close> up to its first suspension (lines 415-417), and its
  \<^verbatim>\<open>catch\<close> (lines 430-434), after which the outer chain goes on with its second
  \<^verbatim>\<open>then\<close>.
\<close>

definition autoAddSoftWinterJacket :: "state \<Rightarrow> state" where
  "autoAddSoftWinterJacket st =
     fetch (ProductJs ''dark-winter-jacket'') JacketLookup
       (emit (ConsoleLog ''Special logic triggered: Adding Soft Winter Jacket'') st)"

definition autoAdd_caught :: "string \<Rightarrow> state \<Rightarrow> state" where
  "autoAdd_caught message st =
     added (emit (ConsoleError ''Failed to auto-add Soft Winter Jacket:'' message) st)"

text \<open>
  The primary request settles. On success the first \<^verbatim>\<open>then\<close> (lines 341-346) reads the
  globals as they are now:
  \<^verbatim>\<open>if (selectedColor.toLowerCase() === 'black' && selectedSize === 'M')\<close>.
\<close>

definition primarySettled :: "response \<Rightarrow> state \<Rightarrow> state" where
  "primarySettled r st =
     (case addToCart_settled r of
        Inl message \<Rightarrow> failed message st
      | Inr _ \<Rightarrow>
          (case selectedColor st of
             None \<Rightarrow> failed typeErrorMessage st
           | Some c \<Rightarrow>
               if toLowerCase c = ''black'' \<and> selectedSize st = Some ''M''
               then autoAddSoftWinterJacket st
               else added st))"

text \<open>
  The jacket's product request settles (lines 418-429):
  \<^verbatim>\<open>jacket.variants[0].id\<close> throws when there is no first variant.
\<close>

definition jacketLookupSettled :: "response \<Rightarrow> state \<Rightarrow> state" where
  "jacketLookupSettled r st =
     (case r of
        Rejected message \<Rightarrow> autoAdd_caught message st
      | NotOk \<Rightarrow> autoAdd_caught ''Soft Winter Jacket product not found'' st
      | Ok b \<Rightarrow>
          (case b of
             OtherBody \<Rightarrow> autoAdd_caught typeErrorMessage st
           | ProductBody jacket \<Rightarrow>
               (case variants jacket of
                  [] \<Rightarrow> autoAdd_caught typeErrorMessage st
                | v # _ \<Rightarrow> addToCart (variant_id v) (Some 1) JacketAdd st)))"

definition jacketAddSettled :: "response \<Rightarrow> state \<Rightarrow> state" where
  "jacketAddSettled r st =
     (case addToCart_settled r of
        Inl message \<Rightarrow> autoAdd_caught message st
      | Inr _ \<Rightarrow> added st)"

text \<open>\<^verbatim>\<open>updateCartCount\<close> after its request: the badge is not modelled, the \<^verbatim>\<open>catch\<close> is.\<close>

definition cartCountSettled :: "response \<Rightarrow> state \<Rightarrow> state" where
  "cartCountSettled r st =
     (case r of
        Rejected message \<Rightarrow> emit (ConsoleError ''Failed to update cart count:'' message) st
      | _ \<Rightarrow> st)"

subsection \<open>Events\<close>

text \<open>
  The page reacts to one event at a time: a click on \<^verbatim>\<open>#popupAddToCart\<close>, which reaches
  its listener \<^verbatim>\<open>handleAddToCart\<close> only while the button is not disabled; a click on a
  colour button; a change of the size dropdown; \<^verbatim>\<open>closePopup\<close>, called by the close
  button, a click on the overlay, the ESC key and the timer of line 354; and the
  settlement of a request in flight, at which the callbacks that wait for it run to the
  next suspension. A settlement of a request that is not in flight is ignored.
\<close>

datatype event =
    ClickAddToCart
  | ClickColor string
  | ChangeSize string
  | ClosePopup
  | Settled nat response

definition settled :: "nat \<Rightarrow> response \<Rightarrow> state \<Rightarrow> state" where
  "settled n r st =
     (case map_of (pending st) n of
        None \<Rightarrow> st
      | Some k \<Rightarrow>
          (let st' = st\<lparr>pending := filter (\<lambda>q. fst q \<noteq> n) (pending st)\<rparr>
           in case k of
                PrimaryAdd \<Rightarrow> primarySettled r st'
              | JacketLookup \<Rightarrow> jacketLookupSettled r st'
              | JacketAdd \<Rightarrow> jacketAddSettled r st'
              | CartCount \<Rightarrow> cartCountSettled r st'))"

fun step :: "state \<Rightarrow> event \<Rightarrow> state" where
  "step st ClickAddToCart = (if addToCartDisabled st then st else handleAddToCart st)"
| "step st (ClickColor c) = selectColor c st"
| "step st (ChangeSize v) = sizeChanged v st"
| "step st ClosePopup = closePopup st"
| "step st (Settled n r) = settled n r st"

fun run :: "state \<Rightarrow> event list \<Rightarrow> state" where
  "run st [] = st"
| "run st (e # es) = run (step st e) es"

text \<open>What a run has added to the trace.\<close>

definition emitted :: "state \<Rightarrow> state \<Rightarrow> effect list" where
  "emitted st st' = drop (length (trace st)) (trace st')"

text \<open>The network calls and the notifications among a list of effects, in order.\<close>

fun calls :: "effect list \<Rightarrow> call list" where
  "calls [] = []"
| "calls (Request n c # es) = c # calls es"
| "calls (e # es) = calls es"

fun notifications :: "effect list \<Rightarrow> (string \<times> notification_type) list" where
  "notifications [] = []"
| "notifications (Notification m k # es) = (m, k) # notifications es"
| "notifications (e # es) = notifications es"

text \<open>
  A response with which the bundle step does not get its line into the cart: at the
  jacket's product request anything but a product with a first variant, at the jacket's
  add request anything but an ok response.
\<close>

fun bundleStepFails :: "stage \<Rightarrow> response \<Rightarrow> bool" where
  "bundleStepFails JacketLookup (Ok (ProductBody jacket)) = (variants jacket = [])"
| "bundleStepFails JacketLookup r = True"
| "bundleStepFails JacketAdd (Ok b) = False"
| "bundleStepFails JacketAdd r = True"
| "bundleStepFails k r = False"

subsection \<open>Example runs\<close>

text \<open>
  The state in which \<^verbatim>\<open>openProductPopup\<close> leaves the page once the product has loaded
  (lines 150-153): \<^verbatim>\<open>renderPopupContent\<close> has reset the selection and
  \<^verbatim>\<open>updateAddToCartButton\<close> has disabled the button.
\<close>

definition opened :: "product \<Rightarrow> state" where
  "opened p =
     \<lparr>currentProduct = Some p, selectedColor = None, selectedSize = None,
      addToCartDisabled = True, pending = [], nextRequest = 0, trace = []\<rparr>"

definition shirt :: product where
  "shirt =
     \<lparr>variants = [\<lparr>variant_id = 1, option1 = Some ''black'', option2 = Some ''S''\<rparr>,
                  \<lparr>variant_id = 2, option1 = Some ''BLACK'', option2 = Some ''m''\<rparr>,
                  \<lparr>variant_id = 3, option1 = Some ''white'', option2 = Some ''M''\<rparr>]\<rparr>"

definition jacket_one :: product where
  "jacket_one = \<lparr>variants = [\<lparr>variant_id = 7, option1 = Some ''Default Title'', option2 = None\<rparr>]\<rparr>"

text \<open>The shopper has opened the shirt's popup, clicked a colour button and chosen a size.\<close>

definition chosen :: "string \<Rightarrow> string \<Rightarrow> state" where
  "chosen c s = run (opened shirt) [ClickColor c, ChangeSize s]"

text \<open>... and has clicked the button, so that the primary request 0 is in flight.\<close>

definition submitted :: "string \<Rightarrow> string \<Rightarrow> state" where
  "submitted c s = run (chosen c s) [ClickAddToCart]"

section \<open>Variant lookup\<close>

lemmas case_conv = toLowerCase_def toUpperCase_def toLowerChar_def toUpperChar_def
  char_of_def bit_Suc_0_iff

lemma toLowerCase_Nil_iff: "toLowerCase s = [] \<longleftrightarrow> s = []"
  by (simp add: toLowerCase_def)

lemma toUpperCase_Nil_iff: "toUpperCase s = [] \<longleftrightarrow> s = []"
  by (simp add: toUpperCase_def)

lemma variantMatches_Some:
  "variantMatches (Some c) (Some s) v =
     Inr (eqIgnoreCase (label (option1 v)) c \<and> toUpperCase (label (option2 v)) = s)"
  by (auto simp: variantMatches_def eqIgnoreCase_def label_def toLowerCase_def
      toUpperCase_def Let_def split: option.splits)

lemma array_find_total:
  "(\<And>x. f x = Inr (P x)) \<Longrightarrow> array_find f xs = Inr (List.find P xs)"
  by (induction xs) auto

lemma findMatchingVariant_find:
  "findMatchingVariant (Some p) (Some c) (Some s) =
     Inr (List.find (\<lambda>v. eqIgnoreCase (label (option1 v)) c \<and>
                          toUpperCase (label (option2 v)) = s) (variants p))"
  unfolding findMatchingVariant_def
  by (simp add: array_find_total [OF variantMatches_Some])

lemma variantMatches_missing:
  "\<not> truthy (option1 v) \<or> \<not> truthy (option2 v) \<Longrightarrow> c \<noteq> [] \<Longrightarrow> s \<noteq> [] \<Longrightarrow>
   variantMatches (Some c) (Some s) v = Inr False"
  by (auto simp: variantMatches_def truthy_def Let_def toLowerCase_Nil_iff
      split: option.splits dest: sym)

lemma variantMatches_filled:
  "variantMatches color sz
     (v\<lparr>option1 := Some (label (option1 v)), option2 := Some (label (option2 v))\<rparr>)
   = variantMatches color sz v"
  by (simp add: variantMatches_def label_def split: option.splits)

lemma array_find_Some_holds:
  "array_find f xs = Inr (Some x) \<Longrightarrow> x \<in> set xs \<and> f x = Inr True"
  by (induction xs) (auto split: sum.splits if_splits)

text \<open>
  C1, as the code has it. For every product and every selection \<open>(c, s)\<close> of strings,
  \<^verbatim>\<open>findMatchingVariant\<close> returns the first variant, in the listed order, whose colour
  equals \<open>c\<close> case-insensitively and whose size, converted to upper case, equals \<open>s\<close>
  (a missing option value counting as the empty string), and not-found when there is
  none. The lookup does not fault.
\<close>

theorem findMatchingVariant_first_match:
  "findMatchingVariant (Some p) (Some c) (Some s) =
     Inr (List.find (\<lambda>v. eqIgnoreCase (label (option1 v)) c \<and>
                          toUpperCase (label (option2 v)) = s) (variants p))"
  by (rule findMatchingVariant_find)

text \<open>
  C1, as the claim words it, fails: the size is not compared exactly. With the variants
  \<open>(black, m)\<close> and \<open>(black, M)\<close> listed in this order and the selection \<open>(black, M)\<close>,
  the code returns the first variant, whose size is \<open>m\<close>; the first variant whose size
  equals \<open>M\<close> exactly is the second.
\<close>

theorem findMatchingVariant_size_not_exact:
  "findMatchingVariant
     (Some \<lparr>variants = [\<lparr>variant_id = 1, option1 = Some ''black'', option2 = Some ''m''\<rparr>,
                        \<lparr>variant_id = 2, option1 = Some ''black'', option2 = Some ''M''\<rparr>]\<rparr>)
     (Some ''black'') (Some ''M'')
   = Inr (Some \<lparr>variant_id = 1, option1 = Some ''black'', option2 = Some ''m''\<rparr>)
   \<and> lookup_exact_size
       [\<lparr>variant_id = 1, option1 = Some ''black'', option2 = Some ''m''\<rparr>,
        \<lparr>variant_id = 2, option1 = Some ''black'', option2 = Some ''M''\<rparr>] ''black'' ''M''
   = Some \<lparr>variant_id = 2, option1 = Some ''black'', option2 = Some ''M''\<rparr>"
  by (simp add: findMatchingVariant_def variantMatches_def lookup_exact_size_def
      eqIgnoreCase_def label_def case_conv)

text \<open>
  C10. Over any variant list and any selection of strings the lookup does not fault. A
  variant matches exactly as the same variant with each missing option value replaced by
  the empty string does; a variant whose colour or size is missing (null or empty)
  matches no selection whose colour and size are both non-empty; so a variant found for
  such a selection is one of the product's variants and has both option values.
\<close>

theorem findMatchingVariant_missing_options:
  "findMatchingVariant (Some p) (Some c) (Some s) \<noteq> Inl e \<and>
   variantMatches (Some c) (Some s) v =
     variantMatches (Some c) (Some s)
       (v\<lparr>option1 := Some (label (option1 v)), option2 := Some (label (option2 v))\<rparr>) \<and>
   ((\<not> truthy (option1 v) \<or> \<not> truthy (option2 v)) \<and> c \<noteq> [] \<and> s \<noteq> [] \<longrightarrow>
      variantMatches (Some c) (Some s) v = Inr False) \<and>
   (c \<noteq> [] \<and> s \<noteq> [] \<and> findMatchingVariant (Some p) (Some c) (Some s) = Inr (Some w) \<longrightarrow>
      w \<in> set (variants p) \<and> truthy (option1 w) \<and> truthy (option2 w))"
proof -
  have total: "findMatchingVariant (Some p) (Some c) (Some s) \<noteq> Inl e"
    by (simp add: findMatchingVariant_find)
  have found: "w \<in> set (variants p) \<and> truthy (option1 w) \<and> truthy (option2 w)"
    if ne: "c \<noteq> []" "s \<noteq> []"
      and res: "findMatchingVariant (Some p) (Some c) (Some s) = Inr (Some w)"
  proof -
    from res have w: "w \<in> set (variants p)" "variantMatches (Some c) (Some s) w = Inr True"
      using array_find_Some_holds [of "variantMatches (Some c) (Some s)" "variants p" w]
      by (simp_all add: findMatchingVariant_def)
    show ?thesis
    proof (cases "\<not> truthy (option1 w) \<or> \<not> truthy (option2 w)")
      case True
      from variantMatches_missing [OF True ne] w(2) show ?thesis by simp
    next
      case False
      with w(1) show ?thesis by simp
    qed
  qed
  show ?thesis
    using total found variantMatches_missing [of v c s]
    by (simp only: variantMatches_filled) blast
qed

theorem findMatchingVariant_missing_options_witness:
  "option1 \<lparr>variant_id = 1, option1 = None, option2 = Some ''M''\<rparr> = None \<and>
   ''black'' \<noteq> [] \<and> ''M'' \<noteq> [] \<and>
   findMatchingVariant
     (Some \<lparr>variants = [\<lparr>variant_id = 1, option1 = None, option2 = Some ''M''\<rparr>,
                        \<lparr>variant_id = 2, option1 = Some ''Black'', option2 = Some ''m''\<rparr>]\<rparr>)
     (Some ''black'') (Some ''M'')
     = Inr (Some \<lparr>variant_id = 2, option1 = Some ''Black'', option2 = Some ''m''\<rparr>) \<and>
   variantMatches (Some ''black'') (Some ''M'')
     \<lparr>variant_id = 1, option1 = None, option2 = Some ''M''\<rparr> = Inr False \<and>
   truthy (option1 \<lparr>variant_id = 2, option1 = Some ''Black'', option2 = Some ''m''\<rparr>) \<and>
   truthy (option2 \<lparr>variant_id = 2, option1 = Some ''Black'', option2 = Some ''m''\<rparr>)"
  using findMatchingVariant_missing_options
    [of "\<lparr>variants = [\<lparr>variant_id = 1, option1 = None, option2 = Some ''M''\<rparr>,
                       \<lparr>variant_id = 2, option1 = Some ''Black'', option2 = Some ''m''\<rparr>]\<rparr>"
        "''black''" "''M''" TypeError
        "\<lparr>variant_id = 1, option1 = None, option2 = Some ''M''\<rparr>"
        "\<lparr>variant_id = 2, option1 = Some ''Black'', option2 = Some ''m''\<rparr>"]
  by (simp add: findMatchingVariant_def variantMatches_def truthy_def case_conv)

section \<open>The add-to-cart workflow\<close>

lemmas flow_defs = handleAddToCart_def showNotification_def emit_def fetch_def addToCart_def
  added_def failed_def autoAddSoftWinterJacket_def autoAdd_caught_def primarySettled_def
  jacketLookupSettled_def jacketAddSettled_def cartCountSettled_def settled_def
  updateCartCount_def Let_def

lemma calls_append: "calls (xs @ ys) = calls xs @ calls ys"
  by (induction xs rule: calls.induct) simp_all

lemma notifications_append: "notifications (xs @ ys) = notifications xs @ notifications ys"
  by (induction xs rule: notifications.induct) simp_all

subsection \<open>Validation\<close>

text \<open>
  C5. When \<^verbatim>\<open>handleAddToCart\<close> runs with the colour or the size missing (null or the
  empty string), all it does is show the error notification "Please select both color
  and size": no request is made and nothing else of the state changes.
\<close>

theorem handleAddToCart_incomplete_selection:
  assumes "\<not> truthy (selectedColor st) \<or> \<not> truthy (selectedSize st)"
  shows "handleAddToCart st =
           st\<lparr>trace := trace st @ [Notification ''Please select both color and size'' Error]\<rparr>
         \<and> calls (emitted st (handleAddToCart st)) = []"
  using assms by (auto simp: flow_defs emitted_def)

text \<open>
  The witness is the page after a failed submission and a close: the \<^verbatim>\<open>finally\<close> has
  enabled the button again and \<^verbatim>\<open>closePopup\<close> has reset the selection.
\<close>

theorem handleAddToCart_incomplete_selection_witness:
  "selectedColor (run (submitted ''BLACK'' ''M'') [Settled 0 NotOk, ClosePopup]) = None \<and>
   selectedSize (run (submitted ''BLACK'' ''M'') [Settled 0 NotOk, ClosePopup]) = None \<and>
   addToCartDisabled (run (submitted ''BLACK'' ''M'') [Settled 0 NotOk, ClosePopup]) = False \<and>
   calls (emitted (run (submitted ''BLACK'' ''M'') [Settled 0 NotOk, ClosePopup])
     (handleAddToCart (run (submitted ''BLACK'' ''M'') [Settled 0 NotOk, ClosePopup]))) = [] \<and>
   notifications (emitted (run (submitted ''BLACK'' ''M'') [Settled 0 NotOk, ClosePopup])
     (handleAddToCart (run (submitted ''BLACK'' ''M'') [Settled 0 NotOk, ClosePopup])))
     = [(''Please select both color and size'', Error)]"
proof -
  let ?st = "run (submitted ''BLACK'' ''M'') [Settled 0 NotOk, ClosePopup]"
  have c: "selectedColor ?st = None" by code_simp
  have z: "selectedSize ?st = None" by code_simp
  have b: "addToCartDisabled ?st = False" by code_simp
  have h: "\<not> truthy (selectedColor ?st) \<or> \<not> truthy (selectedSize ?st)"
    by (simp only: c truthy_def option.case simp_thms)
  from handleAddToCart_incomplete_selection [OF h] c z b show ?thesis
    by (simp add: emitted_def)
qed

text \<open>
  C6. When \<^verbatim>\<open>handleAddToCart\<close> runs with a complete selection for which the lookup in
  the current product finds no variant, all it does is show the error notification
  "This combination is not available": no request is made and nothing else of the state
  changes.
\<close>

theorem handleAddToCart_no_matching_variant:
  assumes "truthy (selectedColor st)" and "truthy (selectedSize st)"
    and "findMatchingVariant (currentProduct st) (selectedColor st) (selectedSize st) = Inr None"
  shows "handleAddToCart st =
           st\<lparr>trace := trace st @ [Notification ''This combination is not available'' Error]\<rparr>
         \<and> calls (emitted st (handleAddToCart st)) = []"
  using assms by (simp add: flow_defs emitted_def)

theorem handleAddToCart_no_matching_variant_witness:
  "truthy (selectedColor (chosen ''white'' ''S'')) \<and>
   truthy (selectedSize (chosen ''white'' ''S'')) \<and>
   findMatchingVariant (currentProduct (chosen ''white'' ''S''))
     (selectedColor (chosen ''white'' ''S'')) (selectedSize (chosen ''white'' ''S'')) = Inr None \<and>
   calls (emitted (chosen ''white'' ''S'') (handleAddToCart (chosen ''white'' ''S''))) = [] \<and>
   notifications (emitted (chosen ''white'' ''S'') (handleAddToCart (chosen ''white'' ''S'')))
     = [(''This combination is not available'', Error)]"
proof -
  let ?st = "chosen ''white'' ''S''"
  have h1: "truthy (selectedColor ?st)" by code_simp
  have h2: "truthy (selectedSize ?st)" by code_simp
  have h3: "findMatchingVariant (currentProduct ?st) (selectedColor ?st) (selectedSize ?st)
      = Inr None"
    by code_simp
  from handleAddToCart_no_matching_variant [OF h1 h2 h3] h1 h2 h3 show ?thesis
    by (simp add: emitted_def)
qed

subsection \<open>The primary add\<close>

text \<open>
  C3. When the primary \<^verbatim>\<open>addToCart\<close> request fails (the promise rejects, or the response
  is not ok), the chain goes to its \<^verbatim>\<open>catch\<close> and \<^verbatim>\<open>finally\<close>: the shopper gets the
  error notification, the button is enabled again, the request leaves the requests in
  flight and no request is made: neither the jacket's product lookup nor its add.
\<close>

theorem primary_failure_is_final:
  assumes "map_of (pending st) n = Some PrimaryAdd" and "addToCart_settled r = Inl message"
  shows "step st (Settled n r) =
           st\<lparr>pending := filter (\<lambda>q. fst q \<noteq> n) (pending st),
              addToCartDisabled := False,
              trace := trace st @ [ConsoleError ''Add to cart error:'' message,
                Notification (''A problem happened. Error: '' @ message) Error]\<rparr>
         \<and> calls (emitted st (step st (Settled n r))) = []
         \<and> notifications (emitted st (step st (Settled n r))) =
             [(''A problem happened. Error: '' @ message, Error)]"
  using assms by (simp add: flow_defs emitted_def)

theorem primary_failure_is_final_witness:
  "map_of (pending (submitted ''BLACK'' ''M'')) 0 = Some PrimaryAdd \<and>
   addToCart_settled NotOk = Inl ''Failed to add to cart'' \<and>
   calls (emitted (submitted ''BLACK'' ''M'') (step (submitted ''BLACK'' ''M'') (Settled 0 NotOk)))
     = [] \<and>
   notifications
     (emitted (submitted ''BLACK'' ''M'') (step (submitted ''BLACK'' ''M'') (Settled 0 NotOk)))
     = [(''A problem happened. Error: Failed to add to cart'', Error)] \<and>
   pending (step (submitted ''BLACK'' ''M'') (Settled 0 NotOk)) = []"
proof -
  let ?st = "submitted ''BLACK'' ''M''"
  have h1: "map_of (pending ?st) 0 = Some PrimaryAdd" by code_simp
  have h2: "addToCart_settled NotOk = Inl ''Failed to add to cart''" by code_simp
  have p: "pending (step ?st (Settled 0 NotOk)) = []" by code_simp
  from primary_failure_is_final [OF h1 h2] h1 h2 p show ?thesis
    by (simp del: step.simps add: emitted_def)
qed

subsection \<open>The bundle rule\<close>

lemma eqIgnoreCase_black: "eqIgnoreCase c ''black'' \<longleftrightarrow> toLowerCase c = ''black''"
  by (simp add: eqIgnoreCase_def case_conv)

text \<open>
  Lower-casing a character gives a lower-case letter exactly for that letter and its
  upper-case form.
\<close>

lemma toLowerChar_eq_iff:
  assumes "97 \<le> (of_char y :: nat)" and "(of_char y :: nat) \<le> 122"
  shows "toLowerChar x = y \<longleftrightarrow> x = y \<or> x = toUpperChar y"
proof -
  have up: "toUpperChar y = char_of (of_char y - (32::nat))"
    using assms by (simp add: toUpperChar_def)
  show ?thesis
  proof (cases "65 \<le> (of_char x :: nat) \<and> (of_char x :: nat) \<le> 90")
    case True
    then have low: "toLowerChar x = char_of (of_char x + (32::nat))"
      by (simp add: toLowerChar_def)
    have "char_of (of_char x + (32::nat)) = y \<longleftrightarrow> of_char x + (32::nat) = of_char y"
    proof
      assume "char_of (of_char x + (32::nat)) = y"
      then have "(of_char (char_of (of_char x + (32::nat))) :: nat) = of_char y" by simp
      with True show "of_char x + (32::nat) = of_char y" by simp
    next
      assume "of_char x + (32::nat) = of_char y"
      then show "char_of (of_char x + (32::nat)) = y" by simp
    qed
    moreover have "x = char_of (of_char y - (32::nat)) \<longleftrightarrow> of_char x + (32::nat) = of_char y"
    proof
      assume "x = char_of (of_char y - (32::nat))"
      then have "(of_char x :: nat) = of_char (char_of (of_char y - (32::nat)))" by simp
      with assms show "of_char x + (32::nat) = of_char y" by simp
    next
      assume "of_char x + (32::nat) = of_char y"
      then have "of_char y - (32::nat) = of_char x" by simp
      then show "x = char_of (of_char y - (32::nat))" by simp
    qed
    moreover have "x \<noteq> y" using True assms by auto
    ultimately show ?thesis by (simp add: low up)
  next
    case False
    then have low: "toLowerChar x = x" by (auto simp: toLowerChar_def)
    have "x \<noteq> char_of (of_char y - (32::nat))"
    proof
      assume "x = char_of (of_char y - (32::nat))"
      then have "(of_char x :: nat) = of_char (char_of (of_char y - (32::nat)))" by simp
      with assms have "(of_char x :: nat) = of_char y - 32" by simp
      with assms False show False by arith
    qed
    then show ?thesis by (simp add: low up)
  qed
qed

text \<open>
  So a colour equals "black" case-insensitively exactly when it is "black" with each of
  its five letters in either case.
\<close>

lemma eqIgnoreCase_black_letters:
  "eqIgnoreCase c ''black'' \<longleftrightarrow> list_all2 (\<lambda>x y. x = y \<or> x = toUpperChar y) c ''black''"
proof -
  have "toLowerCase c = ''black'' \<longleftrightarrow> list_all2 (\<lambda>x y. toLowerChar x = y) c ''black''"
    by (simp add: toLowerCase_def list_all2_map1 [of "(=)", unfolded list.rel_eq, symmetric])
  also have "\<dots> \<longleftrightarrow> list_all2 (\<lambda>x y. x = y \<or> x = toUpperChar y) c ''black''"
  proof -
    have letter: "toLowerChar x = y \<longleftrightarrow> x = y \<or> x = toUpperChar y"
      if "y \<in> set ''black''" for x y
      using that by (intro toLowerChar_eq_iff) auto
    show ?thesis
    proof (rule list.rel_cong [OF refl refl])
      fix z yb
      assume "z \<in> set c" and "yb \<in> set ''black''"
      then show "(toLowerChar z = yb) = (z = yb \<or> z = toUpperChar yb)"
        by (simp only: letter)
    qed
  qed
  finally show ?thesis by (simp add: eqIgnoreCase_black)
qed

lemma primarySettled_ok:
  assumes "selectedColor st = Some c" and "selectedSize st = Some s"
  shows "primarySettled (Ok b) st =
           (if eqIgnoreCase c ''black'' \<and> s = ''M'' then autoAddSoftWinterJacket st else added st)"
  using assms by (simp add: primarySettled_def addToCart_settled_def eqIgnoreCase_black)

text \<open>
  C7. Take any state in which a primary add is in flight and the selected colour is a
  string \<open>c\<close>, whatever product and variant the add was made for, and let the add
  succeed. The first \<^verbatim>\<open>then\<close> calls \<^verbatim>\<open>autoAddSoftWinterJacket\<close>, and so requests the
  jacket's product, exactly when \<open>c\<close> equals "black" case-insensitively and the selected
  size is the string "M"; for every other colour and size (a size that differs from "M"
  only in case, or no size at all, included) it goes on to "Added to cart" and the only
  request is the cart count. The colour and size are the globals as they are when the
  add settles; no option value of a variant is read.
\<close>

theorem bundle_rule_at_settlement:
  assumes "map_of (pending st) n = Some PrimaryAdd" and "selectedColor st = Some c"
  shows "step st (Settled n (Ok b)) =
           (if eqIgnoreCase c ''black'' \<and> selectedSize st = Some ''M''
            then autoAddSoftWinterJacket (st\<lparr>pending := filter (\<lambda>q. fst q \<noteq> n) (pending st)\<rparr>)
            else added (st\<lparr>pending := filter (\<lambda>q. fst q \<noteq> n) (pending st)\<rparr>))
         \<and> calls (emitted st (step st (Settled n (Ok b)))) =
           (if eqIgnoreCase c ''black'' \<and> selectedSize st = Some ''M''
            then [ProductJs ''dark-winter-jacket''] else [CartJs])"
  using assms
  by (simp add: settled_def primarySettled_def addToCart_settled_def eqIgnoreCase_black
      autoAddSoftWinterJacket_def added_def updateCartCount_def showNotification_def
      fetch_def emit_def emitted_def Let_def)

text \<open>
  The witness: after the plain submission of \<open>(BLACK, M)\<close>, which added the variant 2
  whose own size is \<open>m\<close>, the jacket is looked up; when the selected size has become \<open>m\<close>
  while the add is in flight, it is not; and after the submission of \<open>(white, M)\<close>,
  which added the variant 3, a click on the colour \<open>BLACK\<close> while the add is in flight
  makes the jacket be looked up.
\<close>

theorem bundle_rule_at_settlement_witness:
  "map_of (pending (submitted ''BLACK'' ''M'')) 0 = Some PrimaryAdd \<and>
   selectedColor (submitted ''BLACK'' ''M'') = Some ''BLACK'' \<and>
   selectedSize (submitted ''BLACK'' ''M'') = Some ''M'' \<and>
   eqIgnoreCase ''BLACK'' ''black'' \<and>
   calls (emitted (submitted ''BLACK'' ''M'')
     (step (submitted ''BLACK'' ''M'') (Settled 0 (Ok OtherBody))))
     = [ProductJs ''dark-winter-jacket''] \<and>
   map_of (pending (run (submitted ''BLACK'' ''M'') [ChangeSize ''m''])) 0 = Some PrimaryAdd \<and>
   selectedColor (run (submitted ''BLACK'' ''M'') [ChangeSize ''m'']) = Some ''BLACK'' \<and>
   selectedSize (run (submitted ''BLACK'' ''M'') [ChangeSize ''m'']) = Some ''m'' \<and>
   calls (emitted (run (submitted ''BLACK'' ''M'') [ChangeSize ''m''])
     (step (run (submitted ''BLACK'' ''M'') [ChangeSize ''m'']) (Settled 0 (Ok OtherBody))))
     = [CartJs] \<and>
   map_of (pending (run (submitted ''white'' ''M'') [ClickColor ''BLACK''])) 0 = Some PrimaryAdd \<and>
   selectedColor (run (submitted ''white'' ''M'') [ClickColor ''BLACK'']) = Some ''BLACK'' \<and>
   selectedSize (run (submitted ''white'' ''M'') [ClickColor ''BLACK'']) = Some ''M'' \<and>
   calls (trace (step (run (submitted ''white'' ''M'') [ClickColor ''BLACK''])
     (Settled 0 (Ok OtherBody))))
     = [CartAdd 3 1, ProductJs ''dark-winter-jacket'']"
proof -
  let ?a = "submitted ''BLACK'' ''M''"
  let ?b = "run (submitted ''BLACK'' ''M'') [ChangeSize ''m'']"
  let ?c = "run (submitted ''white'' ''M'') [ClickColor ''BLACK'']"
  have e: "eqIgnoreCase ''BLACK'' ''black''" by code_simp
  have a1: "map_of (pending ?a) 0 = Some PrimaryAdd" by code_simp
  have a2: "selectedColor ?a = Some ''BLACK''" by code_simp
  have a3: "selectedSize ?a = Some ''M''" by code_simp
  have b1: "map_of (pending ?b) 0 = Some PrimaryAdd" by code_simp
  have b2: "selectedColor ?b = Some ''BLACK''" by code_simp
  have b3: "selectedSize ?b = Some ''m''" by code_simp
  have c1: "map_of (pending ?c) 0 = Some PrimaryAdd" by code_simp
  have c2: "selectedColor ?c = Some ''BLACK''" by code_simp
  have c3: "selectedSize ?c = Some ''M''" by code_simp
  have c4: "calls (trace (step ?c (Settled 0 (Ok OtherBody))))
     = [CartAdd 3 1, ProductJs ''dark-winter-jacket'']"
    by code_simp
  have ra: "calls (emitted ?a (step ?a (Settled 0 (Ok OtherBody))))
     = [ProductJs ''dark-winter-jacket'']"
    using bundle_rule_at_settlement [OF a1 a2, of OtherBody, THEN conjunct2]
    by (simp only: e a3 simp_thms if_True)
  have rb: "calls (emitted ?b (step ?b (Settled 0 (Ok OtherBody)))) = [CartJs]"
    using bundle_rule_at_settlement [OF b1 b2, of OtherBody, THEN conjunct2]
    by (simp add: b3 del: step.simps run.simps)
  from e a1 a2 a3 ra b1 b2 b3 rb c1 c2 c3 c4 show ?thesis
    by (intro conjI)
qed

lemma handleAddToCart_found:
  assumes "truthy (selectedColor st)" and "truthy (selectedSize st)"
    and "findMatchingVariant (currentProduct st) (selectedColor st) (selectedSize st)
           = Inr (Some v)"
  shows "handleAddToCart st =
           st\<lparr>addToCartDisabled := True,
              pending := pending st @ [(nextRequest st, PrimaryAdd)],
              nextRequest := Suc (nextRequest st),
              trace := trace st @ [Request (nextRequest st) (CartAdd (variant_id v) 1)]\<rparr>"
  using assms by (simp add: flow_defs)

lemma map_of_fresh: "n \<notin> fst ` set xs \<Longrightarrow> map_of (xs @ [(n, k)]) n = Some k"
  by (simp add: map_of_eq_None_iff [symmetric] map_add_Some_iff)

text \<open>
  The same for a whole submission with nothing happening between the click and the
  settlement: the selection \<open>(c, s)\<close> resolves to some variant \<open>v\<close>, the primary add of
  \<open>v\<close> is requested, and the rule is decided by \<open>c\<close> and \<open>s\<close>.
\<close>

lemma uninterrupted_submission_rule:
  assumes "\<not> addToCartDisabled st"
    and "selectedColor st = Some c" and "c \<noteq> []"
    and "selectedSize st = Some s" and "s \<noteq> []"
    and "findMatchingVariant (currentProduct st) (Some c) (Some s) = Inr (Some v)"
    and "nextRequest st \<notin> fst ` set (pending st)"
  shows "calls (emitted st (run st [ClickAddToCart, Settled (nextRequest st) (Ok b)])) =
           CartAdd (variant_id v) 1 #
             (if eqIgnoreCase c ''black'' \<and> s = ''M''
              then [ProductJs ''dark-winter-jacket''] else [CartJs])"
proof -
  have click: "step st ClickAddToCart =
      st\<lparr>addToCartDisabled := True,
         pending := pending st @ [(nextRequest st, PrimaryAdd)],
         nextRequest := Suc (nextRequest st),
         trace := trace st @ [Request (nextRequest st) (CartAdd (variant_id v) 1)]\<rparr>"
    using assms handleAddToCart_found [of st v] by (simp add: truthy_def)
  have run: "run st [ClickAddToCart, Settled (nextRequest st) (Ok b)] =
      settled (nextRequest st) (Ok b) (step st ClickAddToCart)"
    by (simp only: run.simps step.simps)
  show ?thesis
    unfolding run click
    using assms(2,4) map_of_fresh [OF assms(7), of PrimaryAdd]
    by (simp add: settled_def primarySettled_ok Let_def autoAddSoftWinterJacket_def
        added_def updateCartCount_def showNotification_def fetch_def emit_def emitted_def)
qed

text \<open>
  For example, the selection \<open>(BLACK, M)\<close> resolves to the variant 2, whose own size is
  \<open>m\<close>, and the jacket is looked up; the selection \<open>(white, M)\<close> resolves to the
  variant 3 and the jacket is not looked up.
\<close>

lemma uninterrupted_submission_example:
  "(\<not> addToCartDisabled (chosen ''BLACK'' ''M'') \<and>
    selectedColor (chosen ''BLACK'' ''M'') = Some ''BLACK'' \<and> ''BLACK'' \<noteq> [] \<and>
    selectedSize (chosen ''BLACK'' ''M'') = Some ''M'' \<and> ''M'' \<noteq> [] \<and>
    findMatchingVariant (currentProduct (chosen ''BLACK'' ''M'')) (Some ''BLACK'') (Some ''M'')
      = Inr (Some \<lparr>variant_id = 2, option1 = Some ''BLACK'', option2 = Some ''m''\<rparr>) \<and>
    nextRequest (chosen ''BLACK'' ''M'') \<notin> fst ` set (pending (chosen ''BLACK'' ''M''))) \<and>
   calls (emitted (chosen ''BLACK'' ''M'')
     (run (chosen ''BLACK'' ''M'') [ClickAddToCart, Settled 0 (Ok OtherBody)]))
     = [CartAdd 2 1, ProductJs ''dark-winter-jacket''] \<and>
   calls (emitted (chosen ''white'' ''M'')
     (run (chosen ''white'' ''M'') [ClickAddToCart, Settled 0 (Ok OtherBody)]))
     = [CartAdd 3 1, CartJs]"
proof -
  let ?st = "chosen ''BLACK'' ''M''"
  let ?v = "\<lparr>variant_id = 2, option1 = Some ''BLACK'', option2 = Some ''m''\<rparr>"
  have h1: "\<not> addToCartDisabled ?st" by code_simp
  have h2: "selectedColor ?st = Some ''BLACK''" by code_simp
  have h3: "''BLACK'' \<noteq> []" by simp
  have h4: "selectedSize ?st = Some ''M''" by code_simp
  have h5: "''M'' \<noteq> []" by simp
  have h6: "findMatchingVariant (currentProduct ?st) (Some ''BLACK'') (Some ''M'') = Inr (Some ?v)"
    by code_simp
  have h7: "nextRequest ?st \<notin> fst ` set (pending ?st)" by code_simp
  have n: "nextRequest ?st = 0" by code_simp
  have e: "eqIgnoreCase ''BLACK'' ''black''" by code_simp
  have w: "calls (emitted (chosen ''white'' ''M'')
     (run (chosen ''white'' ''M'') [ClickAddToCart, Settled 0 (Ok OtherBody)]))
     = [CartAdd 3 1, CartJs]"
    by code_simp
  from uninterrupted_submission_rule [OF h1 h2 h3 h4 h5 h6 h7, of OtherBody]
  have "calls (emitted ?st (run ?st [ClickAddToCart, Settled 0 (Ok OtherBody)]))
     = [CartAdd 2 1, ProductJs ''dark-winter-jacket'']"
    by (simp add: n e)
  with h1 h2 h4 h6 h7 w show ?thesis by simp
qed

subsection \<open>The bundle step\<close>

lemma autoAdd_caught_eq:
  "autoAdd_caught message st =
     st\<lparr>pending := pending st @ [(nextRequest st, CartCount)],
        nextRequest := Suc (nextRequest st),
        addToCartDisabled := False,
        trace := trace st @ [ConsoleError ''Failed to auto-add Soft Winter Jacket:'' message,
          Notification ''Added to cart'' Success, Request (nextRequest st) CartJs,
          SetTimeout_closePopup]\<rparr>"
  by (simp add: flow_defs)

lemma bundleStepFails_caught:
  assumes "map_of (pending st) n = Some k" and "bundleStepFails k r"
  shows "\<exists>message. step st (Settled n r) =
           autoAdd_caught message (st\<lparr>pending := filter (\<lambda>q. fst q \<noteq> n) (pending st)\<rparr>)"
  using assms
  by (cases "(k, r)" rule: bundleStepFails.cases)
    (auto simp: settled_def jacketLookupSettled_def jacketAddSettled_def addToCart_settled_def)

text \<open>
  C2. Once the bundle step is under way (the primary add has succeeded and the rule has
  triggered, so the jacket's product lookup or its add is in flight), every response
  with which the step fails ends the submission like this: the only notification is
  "Added to cart" of type success, the only request is the read of the cart count (no
  write to the cart, so the primary line stays), and the button is enabled again.
\<close>

theorem bundle_failure_reports_success:
  assumes "map_of (pending st) n = Some k" and "bundleStepFails k r"
  shows "notifications (emitted st (step st (Settled n r))) = [(''Added to cart'', Success)]
         \<and> calls (emitted st (step st (Settled n r))) = [CartJs]
         \<and> \<not> addToCartDisabled (step st (Settled n r))
         \<and> pending (step st (Settled n r)) =
             filter (\<lambda>q. fst q \<noteq> n) (pending st) @ [(nextRequest st, CartCount)]"
proof -
  from bundleStepFails_caught [OF assms] obtain message where
    "step st (Settled n r) =
       autoAdd_caught message (st\<lparr>pending := filter (\<lambda>q. fst q \<noteq> n) (pending st)\<rparr>)" ..
  then show ?thesis
    by (simp add: autoAdd_caught_eq emitted_def)
qed

text \<open>
  The witness: the primary add of the selection \<open>(BLACK, M)\<close> succeeded, the jacket was
  found, and the request that adds it is rejected by the network.
\<close>

theorem bundle_failure_reports_success_witness:
  "(map_of (pending (run (submitted ''BLACK'' ''M'')
       [Settled 0 (Ok OtherBody), Settled 1 (Ok (ProductBody jacket_one))])) 2 = Some JacketAdd \<and>
    bundleStepFails JacketAdd (Rejected ''Failed to fetch'')) \<and>
   notifications (trace (run (submitted ''BLACK'' ''M'')
       [Settled 0 (Ok OtherBody), Settled 1 (Ok (ProductBody jacket_one)),
        Settled 2 (Rejected ''Failed to fetch'')]))
     = [(''Added to cart'', Success)] \<and>
   calls (trace (run (submitted ''BLACK'' ''M'')
       [Settled 0 (Ok OtherBody), Settled 1 (Ok (ProductBody jacket_one)),
        Settled 2 (Rejected ''Failed to fetch'')]))
     = [CartAdd 2 1, ProductJs ''dark-winter-jacket'', CartAdd 7 1, CartJs] \<and>
   notifications (emitted
       (run (submitted ''BLACK'' ''M'')
          [Settled 0 (Ok OtherBody), Settled 1 (Ok (ProductBody jacket_one))])
       (step (run (submitted ''BLACK'' ''M'')
          [Settled 0 (Ok OtherBody), Settled 1 (Ok (ProductBody jacket_one))])
          (Settled 2 (Rejected ''Failed to fetch''))))
     = [(''Added to cart'', Success)]"
proof -
  let ?st = "run (submitted ''BLACK'' ''M'')
       [Settled 0 (Ok OtherBody), Settled 1 (Ok (ProductBody jacket_one))]"
  have h1: "map_of (pending ?st) 2 = Some JacketAdd" by code_simp
  have h2: "bundleStepFails JacketAdd (Rejected ''Failed to fetch'')" by simp
  have t1: "notifications (trace (run (submitted ''BLACK'' ''M'')
       [Settled 0 (Ok OtherBody), Settled 1 (Ok (ProductBody jacket_one)),
        Settled 2 (Rejected ''Failed to fetch'')]))
     = [(''Added to cart'', Success)]"
    by code_simp
  have t2: "calls (trace (run (submitted ''BLACK'' ''M'')
       [Settled 0 (Ok OtherBody), Settled 1 (Ok (ProductBody jacket_one)),
        Settled 2 (Rejected ''Failed to fetch'')]))
     = [CartAdd 2 1, ProductJs ''dark-winter-jacket'', CartAdd 7 1, CartJs]"
    by code_simp
  from bundle_failure_reports_success [OF h1 h2] h1 t1 t2 show ?thesis
    by simp
qed

text \<open>
  C9. When the jacket's product lookup answers with a product whose variant list is
  empty, the \<^verbatim>\<open>TypeError\<close> of \<^verbatim>\<open>jacket.variants[0].id\<close> goes to the \<^verbatim>\<open>catch\<close> of
  \<^verbatim>\<open>autoAddSoftWinterJacket\<close> (its console message is the one of line 432), no add of
  the jacket is requested, and the submission ends with the notification
  "Added to cart" of type success.
\<close>

theorem empty_jacket_is_caught_inside:
  assumes "map_of (pending st) n = Some JacketLookup" and "variants jacket = []"
  shows "step st (Settled n (Ok (ProductBody jacket))) =
           st\<lparr>pending := filter (\<lambda>q. fst q \<noteq> n) (pending st) @ [(nextRequest st, CartCount)],
              nextRequest := Suc (nextRequest st),
              addToCartDisabled := False,
              trace := trace st @
                [ConsoleError ''Failed to auto-add Soft Winter Jacket:'' typeErrorMessage,
                 Notification ''Added to cart'' Success, Request (nextRequest st) CartJs,
                 SetTimeout_closePopup]\<rparr>"
  using assms by (simp add: flow_defs)

theorem empty_jacket_is_caught_inside_witness:
  "(map_of (pending (run (submitted ''BLACK'' ''M'') [Settled 0 (Ok OtherBody)])) 1
      = Some JacketLookup \<and>
    variants \<lparr>variants = []\<rparr> = []) \<and>
   trace (step (run (submitted ''BLACK'' ''M'') [Settled 0 (Ok OtherBody)])
            (Settled 1 (Ok (ProductBody \<lparr>variants = []\<rparr>)))) =
     [Request 0 (CartAdd 2 1),
      ConsoleLog ''Special logic triggered: Adding Soft Winter Jacket'',
      Request 1 (ProductJs ''dark-winter-jacket''),
      ConsoleError ''Failed to auto-add Soft Winter Jacket:'' typeErrorMessage,
      Notification ''Added to cart'' Success, Request 2 CartJs, SetTimeout_closePopup]"
proof -
  let ?st = "run (submitted ''BLACK'' ''M'') [Settled 0 (Ok OtherBody)]"
  have h1: "map_of (pending ?st) 1 = Some JacketLookup" by code_simp
  have h2: "variants \<lparr>variants = []\<rparr> = []" by simp
  have t: "trace ?st = [Request 0 (CartAdd 2 1),
      ConsoleLog ''Special logic triggered: Adding Soft Winter Jacket'',
      Request 1 (ProductJs ''dark-winter-jacket'')]"
    by code_simp
  have n: "nextRequest ?st = 2" by code_simp
  from empty_jacket_is_caught_inside [OF h1 h2] h1 show ?thesis
    by (simp del: run.simps step.simps add: t n)
qed

subsection \<open>Events while a submission is in flight\<close>

text \<open>
  C8 does not hold of the code. The first \<^verbatim>\<open>then\<close> reads \<^verbatim>\<open>selectedColor\<close> when the
  primary add has settled. If the popup is closed in between, \<^verbatim>\<open>selectedColor\<close> is null,
  \<^verbatim>\<open>selectedColor.toLowerCase()\<close> throws, and the shopper is shown an error although the
  primary line is in the cart; without the close the same submission goes on to the
  jacket and ends with "Added to cart".
\<close>

theorem close_in_flight_reports_error:
  "notifications (trace (run (submitted ''BLACK'' ''M'') [ClosePopup, Settled 0 (Ok OtherBody)]))
     = [(''A problem happened. Error: '' @ typeErrorMessage, Error)]
   \<and> calls (trace (run (submitted ''BLACK'' ''M'') [ClosePopup, Settled 0 (Ok OtherBody)]))
     = [CartAdd 2 1]
   \<and> calls (trace (run (submitted ''BLACK'' ''M'') [Settled 0 (Ok OtherBody)]))
     = [CartAdd 2 1, ProductJs ''dark-winter-jacket'']
   \<and> notifications (trace (run (submitted ''BLACK'' ''M'')
       [Settled 0 (Ok OtherBody), Settled 1 (Ok (ProductBody jacket_one)),
        Settled 2 (Ok OtherBody)]))
     = [(''Added to cart'', Success)]"
  by code_simp

text \<open>
  What the disabled button gives: two clicks in a row make at most one request.
\<close>

lemma handleAddToCart_cases:
  "(\<exists>e. handleAddToCart st = st\<lparr>trace := trace st @ [e]\<rparr> \<and> calls [e] = []) \<or>
   (addToCartDisabled (handleAddToCart st) \<and>
    (\<exists>i. calls (emitted st (handleAddToCart st)) = [CartAdd i 1]))"
  by (auto simp: flow_defs emitted_def split: sum.splits option.splits)

lemma handleAddToCart_trace_irrelevant:
  "handleAddToCart (st\<lparr>trace := t\<rparr>) =
     (handleAddToCart st)\<lparr>trace := t @ emitted st (handleAddToCart st)\<rparr>"
  by (auto simp: flow_defs emitted_def split: sum.splits option.splits)

lemma double_click_adds_once:
  "length (calls (emitted st (run st [ClickAddToCart, ClickAddToCart]))) \<le> 1"
proof (cases "addToCartDisabled st")
  case True
  then show ?thesis by (simp add: emitted_def)
next
  case False
  from handleAddToCart_cases [of st] show ?thesis
  proof
    assume "\<exists>e. handleAddToCart st = st\<lparr>trace := trace st @ [e]\<rparr> \<and> calls [e] = []"
    then obtain e where e: "handleAddToCart st = st\<lparr>trace := trace st @ [e]\<rparr>" "calls [e] = []"
      by blast
    have "emitted st (handleAddToCart st) = [e]"
      by (simp add: e(1) emitted_def)
    moreover have "calls [e, e] = []"
      using e(2) calls_append [of "[e]" "[e]"] by simp
    ultimately show ?thesis
      using False e by (simp add: handleAddToCart_trace_irrelevant emitted_def)
  next
    assume "addToCartDisabled (handleAddToCart st) \<and>
      (\<exists>i. calls (emitted st (handleAddToCart st)) = [CartAdd i 1])"
    with False show ?thesis by auto
  qed
qed

text \<open>
  C4 does not hold of the code. \<^verbatim>\<open>selectColor\<close> and the size listener call
  \<^verbatim>\<open>updateAddToCartButton\<close>, which enables the button whenever the selection is
  complete, also while a submission is in flight. A click on a colour between two
  clicks on the button lets the second click through: two primary adds are requested
  and both are in flight.
\<close>

theorem reenabled_button_adds_twice:
  "calls (trace (run (chosen ''BLACK'' ''M'') [ClickAddToCart, ClickColor ''BLACK'', ClickAddToCart]))
     = [CartAdd 2 1, CartAdd 2 1]
   \<and> pending (run (chosen ''BLACK'' ''M'') [ClickAddToCart, ClickColor ''BLACK'', ClickAddToCart])
     = [(0, PrimaryAdd), (1, PrimaryAdd)]
   \<and> calls (trace (run (chosen ''BLACK'' ''M'') [ClickAddToCart, ClickAddToCart]))
     = [CartAdd 2 1]"
  by code_simp

end
